theory Spec2Isabelle
  imports Complex_Main
begin

section \<open>Controller input\<close>

text \<open>
  The controller is an \<^verbatim>\<open>frc::Joystick\<close>; the dispatcher only reads its three axes
  through \<^verbatim>\<open>GetX()\<close>, \<^verbatim>\<open>GetY()\<close> and \<^verbatim>\<open>GetZ()\<close>. A \<^verbatim>\<open>double\<close> is modelled by the real
  number it denotes: the joystick axes are normalised readings, so NaN and the
  infinities are not part of the model. The header includes \<^verbatim>\<open>math.h\<close>, so \<^verbatim>\<open>abs\<close> applied
  to a \<^verbatim>\<open>double\<close> is the floating-point absolute value, which is exact, as is the
  comparison \<^verbatim>\<open><\<close>. The sum of two doubles is not exact: it is rounded.
\<close>

record Joystick =
  GetX :: real
  GetY :: real
  GetZ :: real

section \<open>Double addition\<close>

text \<open>
  The sum of two finite doubles is their exact sum rounded once to the binary64
  format: 53 significant bits, the least exponent \<open>-1022\<close> (below it the spacing of
  the doubles stays at \<open>2 powi (-1074)\<close>), rounding to the nearest double and, of two
  that are equally near, to the one with the even significand; a rounded sum of
  magnitude \<open>2 ^ 1024\<close> or more is an infinity. The result of an addition is
  therefore a finite double or one of the two infinities.
\<close>

datatype double = Finite real | PlusInfinity | MinusInfinity

text \<open>Rounding a real number to the nearest integer, a tie to the even one.\<close>

definition round_half_even :: "real \<Rightarrow> int" where
  "round_half_even r =
     (let f = \<lfloor>r\<rfloor>
      in if r - of_int f < 1 / 2 then f
         else if 1 / 2 < r - of_int f then f + 1
         else if even f then f
         else f + 1)"

text \<open>The spacing of the doubles around a real number that is not zero.\<close>

definition double_ulp :: "real \<Rightarrow> real" where
  "double_ulp r = 2 powi (max \<lfloor>log 2 \<bar>r\<bar>\<rfloor> (- 1022) - 52)"

definition double_huge :: real where
  "double_huge = 2 ^ 1024"

definition double_of_real :: "real \<Rightarrow> double" where
  "double_of_real r =
     (if r = 0 then Finite 0
      else
        (let q = of_int (round_half_even (r / double_ulp r)) * double_ulp r
         in if double_huge \<le> q then PlusInfinity
            else if q \<le> - double_huge then MinusInfinity
            else Finite q))"

definition double_add :: "real \<Rightarrow> real \<Rightarrow> double" where
  "double_add a b = double_of_real (a + b)"

text \<open>
  The real numbers that are finite doubles: an integer significand of fewer than 54
  bits times a power of two in the range of the format.
\<close>

definition is_double :: "real \<Rightarrow> bool" where
  "is_double r = (\<exists>m e :: int. \<bar>m\<bar> < 2 ^ 53 \<and> - 1074 \<le> e \<and> e \<le> 971 \<and> r = of_int m * 2 powi e)"

fun double_nonnegative :: "double \<Rightarrow> bool" where
  "double_nonnegative (Finite r) = (0 \<le> r)"
| "double_nonnegative PlusInfinity = True"
| "double_nonnegative MinusInfinity = False"

section \<open>Magnitude and deadzone of the controller\<close>

text \<open>
  \<^verbatim>\<open>getControllerAbsoluteMagnitude\<close>: the double sum of the absolute values of the x
  and y readings.
\<close>

definition getControllerAbsoluteMagnitude :: "Joystick \<Rightarrow> double" where
  "getControllerAbsoluteMagnitude controller =
     (let absX = \<bar>GetX controller\<bar>;
          absY = \<bar>GetY controller\<bar>
      in double_add absX absY)"

text \<open>
  \<^verbatim>\<open>getControllerInDeadzone\<close>. The constant \<^verbatim>\<open>R_controllerDeadzone\<close> comes from a header
  that is not part of the sources at hand, so it is the first parameter.
\<close>

definition getControllerInDeadzone :: "real \<Rightarrow> Joystick \<Rightarrow> bool" where
  "getControllerInDeadzone R_controllerDeadzone controller =
     (let absX = \<bar>GetX controller\<bar>;
          absY = \<bar>GetY controller\<bar>;
          absZ = \<bar>GetZ controller\<bar>;
          zone = R_controllerDeadzone
      in if absX < zone \<and> absY < zone \<and> absZ < zone then True else False)"

section \<open>Swerve modules\<close>

text \<open>
  The dispatcher holds four pointers to \<^verbatim>\<open>SwerveModule\<close> objects. A pointer is modelled
  as a handle into a store of modules, so that two of the four may name the same
  module, as two equal pointers would.
\<close>

type_synonym handle = nat

text \<open>
  Modelled from the spec: the header \<^verbatim>\<open>SwerveModule.h\<close> is not part of the sources.
  A module has a drive channel and a swerve (azimuth) channel that take a speed, a
  raw azimuth encoder reading, the stored zero reference, and the position its
  azimuth actuator was last commanded to, if it was.
\<close>

record SwerveModule =
  driveChannel :: real
  swerveChannel :: real
  swervePosition :: real
  swerveZeroPosition :: real
  swerveSetpoint :: "real option"

text \<open>
  Every call that leaves the dispatcher is recorded, in the order it is made: the
  calls on a module carry the handle of the module, a telemetry write carries its key
  and its value.
\<close>

datatype call =
    Call_setDriveSpeed handle real
  | Call_setSwerveSpeed handle real
  | Call_setZeroPosition handle
  | Call_getSwerveZeroPosition handle
  | Call_assumeSwerveZeroPosition handle
  | Call_assumeSwerveNearestZeroPosition handle
  | Call_getSwervePosition handle
  | Call_command handle real real
  | Call_PutNumber string real

text \<open>The private members of \<^verbatim>\<open>SwerveTrain\<close>: four module pointers and nothing else.\<close>

record SwerveTrain =
  m_frontRight :: handle
  m_frontLeft :: handle
  m_rearLeft :: handle
  m_rearRight :: handle

text \<open>
  The state a call of the dispatcher runs in: the dispatcher object itself, the store
  of modules, and the calls made so far.
\<close>

record robot =
  train :: SwerveTrain
  modules :: "handle \<Rightarrow> SwerveModule"
  calls :: "call list"

text \<open>The handles a dispatcher holds, and the calls made between two states.\<close>

definition handles :: "SwerveTrain \<Rightarrow> handle set" where
  "handles t = {m_frontRight t, m_frontLeft t, m_rearLeft t, m_rearRight t}"

definition issued :: "robot \<Rightarrow> robot \<Rightarrow> call list" where
  "issued s s' = drop (length (calls s)) (calls s')"

text \<open>A motion command is a speed write or a position command to a module.\<close>

fun isMotion :: "call \<Rightarrow> bool" where
  "isMotion (Call_setDriveSpeed h v) = True"
| "isMotion (Call_setSwerveSpeed h v) = True"
| "isMotion (Call_assumeSwerveZeroPosition h) = True"
| "isMotion (Call_assumeSwerveNearestZeroPosition h) = True"
| "isMotion (Call_command h d t) = True"
| "isMotion (Call_setZeroPosition h) = False"
| "isMotion (Call_getSwerveZeroPosition h) = False"
| "isMotion (Call_getSwervePosition h) = False"
| "isMotion (Call_PutNumber k v) = False"

fun isCapture :: "call \<Rightarrow> bool" where
  "isCapture (Call_setZeroPosition h) = True"
| "isCapture (Call_setDriveSpeed h v) = False"
| "isCapture (Call_setSwerveSpeed h v) = False"
| "isCapture (Call_assumeSwerveZeroPosition h) = False"
| "isCapture (Call_assumeSwerveNearestZeroPosition h) = False"
| "isCapture (Call_command h d t) = False"
| "isCapture (Call_getSwerveZeroPosition h) = False"
| "isCapture (Call_getSwervePosition h) = False"
| "isCapture (Call_PutNumber k v) = False"

text \<open>The telemetry writes among a list of calls, as pairs of key and value.\<close>

fun published :: "call list \<Rightarrow> (string \<times> real) list" where
  "published [] = []"
| "published (Call_PutNumber k v # cs) = (k, v) # published cs"
| "published (c # cs) = published cs"

text \<open>
  Modelled from the spec: \<^verbatim>\<open>SwerveModule::setDriveSpeed\<close> and
  \<^verbatim>\<open>SwerveModule::setSwerveSpeed\<close> (bodies not in the sources) pass the scalar to the
  drive channel and to the swerve channel of the module.
\<close>

definition SwerveModule_setDriveSpeed :: "handle \<Rightarrow> real \<Rightarrow> robot \<Rightarrow> robot" where
  "SwerveModule_setDriveSpeed h v s =
     s\<lparr>modules := (modules s)(h := (modules s h)\<lparr>driveChannel := v\<rparr>),
       calls := calls s @ [Call_setDriveSpeed h v]\<rparr>"

text \<open>
  Modelled from the spec: \<^verbatim>\<open>SwerveModule::setSwerveSpeed\<close>, the same write on the swerve
  channel.
\<close>

definition SwerveModule_setSwerveSpeed :: "handle \<Rightarrow> real \<Rightarrow> robot \<Rightarrow> robot" where
  "SwerveModule_setSwerveSpeed h v s =
     s\<lparr>modules := (modules s)(h := (modules s h)\<lparr>swerveChannel := v\<rparr>),
       calls := calls s @ [Call_setSwerveSpeed h v]\<rparr>"

text \<open>
  Modelled from the spec: \<^verbatim>\<open>SwerveModule::setZeroPosition\<close> (body not in the sources)
  reads the module's current raw azimuth encoder value and stores it as the module's
  zero reference, overwriting any prior value; no motion is commanded.
  \<^verbatim>\<open>getSwerveZeroPosition\<close> returns the stored zero reference and \<^verbatim>\<open>getSwervePosition\<close>
  the current raw reading.
\<close>

definition SwerveModule_setZeroPosition :: "handle \<Rightarrow> robot \<Rightarrow> robot" where
  "SwerveModule_setZeroPosition h s =
     s\<lparr>modules := (modules s)(h := (modules s h)\<lparr>swerveZeroPosition := swervePosition (modules s h)\<rparr>),
       calls := calls s @ [Call_setZeroPosition h]\<rparr>"

text \<open>
  Modelled from the spec: \<^verbatim>\<open>SwerveModule::getSwerveZeroPosition\<close> reads the stored zero
  reference and changes nothing.
\<close>

definition SwerveModule_getSwerveZeroPosition :: "handle \<Rightarrow> robot \<Rightarrow> real \<times> robot" where
  "SwerveModule_getSwerveZeroPosition h s =
     (swerveZeroPosition (modules s h), s\<lparr>calls := calls s @ [Call_getSwerveZeroPosition h]\<rparr>)"

text \<open>
  Modelled from the spec: \<^verbatim>\<open>SwerveModule::getSwervePosition\<close> reads the current raw
  azimuth encoder value and changes nothing.
\<close>

definition SwerveModule_getSwervePosition :: "handle \<Rightarrow> robot \<Rightarrow> real \<times> robot" where
  "SwerveModule_getSwervePosition h s =
     (swervePosition (modules s h), s\<lparr>calls := calls s @ [Call_getSwervePosition h]\<rparr>)"

text \<open>
  Modelled from the spec: \<^verbatim>\<open>SwerveModule::assumeSwerveZeroPosition\<close> (body not in the
  sources) commands the azimuth actuator directly to the stored zero reference.
\<close>

definition SwerveModule_assumeSwerveZeroPosition :: "handle \<Rightarrow> robot \<Rightarrow> robot" where
  "SwerveModule_assumeSwerveZeroPosition h s =
     s\<lparr>modules := (modules s)(h := (modules s h)\<lparr>swerveSetpoint := Some (swerveZeroPosition (modules s h))\<rparr>),
       calls := calls s @ [Call_assumeSwerveZeroPosition h]\<rparr>"

text \<open>
  Modelled from the spec: \<^verbatim>\<open>SwerveModule::assumeSwerveNearestZeroPosition\<close> (body not in
  the sources) commands the azimuth actuator to a target that the module computes
  from its own zero reference and its own current raw position. The computation is
  not in the sources; it is the parameter \<open>nearestZero\<close>, a function of the zero
  reference and the position.
\<close>

definition SwerveModule_assumeSwerveNearestZeroPosition ::
  "(real \<Rightarrow> real \<Rightarrow> real) \<Rightarrow> handle \<Rightarrow> robot \<Rightarrow> robot" where
  "SwerveModule_assumeSwerveNearestZeroPosition nearestZero h s =
     s\<lparr>modules := (modules s)(h := (modules s h)
         \<lparr>swerveSetpoint := Some (nearestZero
              (swerveZeroPosition (modules s h)) (swervePosition (modules s h)))\<rparr>),
       calls := calls s @ [Call_assumeSwerveNearestZeroPosition h]\<rparr>"

section \<open>The dispatcher\<close>

text \<open>\<^verbatim>\<open>frc::SmartDashboard::PutNumber\<close>: a telemetry write, fire and forget.\<close>

definition PutNumber :: "string \<Rightarrow> real \<Rightarrow> robot \<Rightarrow> robot" where
  "PutNumber key v s = s\<lparr>calls := calls s @ [Call_PutNumber key v]\<rparr>"

text \<open>The constructor stores the addresses of the four modules it is given.\<close>

definition SwerveTrain_new :: "handle \<Rightarrow> handle \<Rightarrow> handle \<Rightarrow> handle \<Rightarrow> robot \<Rightarrow> robot" where
  "SwerveTrain_new frontRightModule frontLeftModule rearLeftModule rearRightModule s =
     s\<lparr>train := \<lparr>m_frontRight = frontRightModule, m_frontLeft = frontLeftModule,
                  m_rearLeft = rearLeftModule, m_rearRight = rearRightModule\<rparr>\<rparr>"

text \<open>
  The bulk operations, statement by statement. Each statement reads its pointer from
  the dispatcher object of the state it runs in.
\<close>

definition setDriveSpeed :: "real \<Rightarrow> robot \<Rightarrow> robot" where
  "setDriveSpeed driveSpeed s0 =
     (let s1 = SwerveModule_setDriveSpeed (m_frontRight (train s0)) driveSpeed s0;
          s2 = SwerveModule_setDriveSpeed (m_frontLeft (train s1)) driveSpeed s1;
          s3 = SwerveModule_setDriveSpeed (m_rearLeft (train s2)) driveSpeed s2;
          s4 = SwerveModule_setDriveSpeed (m_rearRight (train s3)) driveSpeed s3
      in s4)"

definition setSwerveSpeed :: "real \<Rightarrow> robot \<Rightarrow> robot" where
  "setSwerveSpeed swerveSpeed s0 =
     (let s1 = SwerveModule_setSwerveSpeed (m_frontRight (train s0)) swerveSpeed s0;
          s2 = SwerveModule_setSwerveSpeed (m_frontLeft (train s1)) swerveSpeed s1;
          s3 = SwerveModule_setSwerveSpeed (m_rearLeft (train s2)) swerveSpeed s2;
          s4 = SwerveModule_setSwerveSpeed (m_rearRight (train s3)) swerveSpeed s3
      in s4)"

definition setSwerveZeroPosition :: "bool \<Rightarrow> robot \<Rightarrow> robot" where
  "setSwerveZeroPosition verbose s0 =
     (let s1 = SwerveModule_setZeroPosition (m_frontRight (train s0)) s0;
          s2 = SwerveModule_setZeroPosition (m_frontLeft (train s1)) s1;
          s3 = SwerveModule_setZeroPosition (m_rearLeft (train s2)) s2;
          s4 = SwerveModule_setZeroPosition (m_rearRight (train s3)) s3
      in if verbose then
           (let (fr, s5) = SwerveModule_getSwerveZeroPosition (m_frontRight (train s4)) s4;
                s6 = PutNumber ''FR Swrv Pos0'' fr s5;
                (fl, s7) = SwerveModule_getSwerveZeroPosition (m_frontLeft (train s6)) s6;
                s8 = PutNumber ''FL Swrv Pos0'' fl s7;
                (rl, s9) = SwerveModule_getSwerveZeroPosition (m_rearLeft (train s8)) s8;
                s10 = PutNumber ''RL Swrv Pos0'' rl s9;
                (rr, s11) = SwerveModule_getSwerveZeroPosition (m_rearRight (train s10)) s10;
                s12 = PutNumber ''RR Swrv Pos0'' rr s11
            in s12)
         else s4)"

definition assumeZeroPosition :: "robot \<Rightarrow> robot" where
  "assumeZeroPosition s0 =
     (let s1 = SwerveModule_assumeSwerveZeroPosition (m_frontRight (train s0)) s0;
          s2 = SwerveModule_assumeSwerveZeroPosition (m_frontLeft (train s1)) s1;
          s3 = SwerveModule_assumeSwerveZeroPosition (m_rearLeft (train s2)) s2;
          s4 = SwerveModule_assumeSwerveZeroPosition (m_rearRight (train s3)) s3
      in s4)"

text \<open>
  \<^verbatim>\<open>assumeNearestZeroPosition\<close>; the first parameter is the target computation of the
  modules, handed on to each of the four calls.
\<close>

definition assumeNearestZeroPosition :: "(real \<Rightarrow> real \<Rightarrow> real) \<Rightarrow> robot \<Rightarrow> robot" where
  "assumeNearestZeroPosition nearestZero s0 =
     (let s1 = SwerveModule_assumeSwerveNearestZeroPosition nearestZero (m_frontRight (train s0)) s0;
          s2 = SwerveModule_assumeSwerveNearestZeroPosition nearestZero (m_frontLeft (train s1)) s1;
          s3 = SwerveModule_assumeSwerveNearestZeroPosition nearestZero (m_rearLeft (train s2)) s2;
          s4 = SwerveModule_assumeSwerveNearestZeroPosition nearestZero (m_rearRight (train s3)) s3
      in s4)"

definition publishSwervePositions :: "robot \<Rightarrow> robot" where
  "publishSwervePositions s0 =
     (let (fr, s1) = SwerveModule_getSwervePosition (m_frontRight (train s0)) s0;
          s2 = PutNumber ''FR Swrv Pos'' fr s1;
          (fl, s3) = SwerveModule_getSwervePosition (m_frontLeft (train s2)) s2;
          s4 = PutNumber ''FL Swrv Pos'' fl s3;
          (rl, s5) = SwerveModule_getSwervePosition (m_rearLeft (train s4)) s4;
          s6 = PutNumber ''RL Swrv Pos'' rl s5;
          (rr, s7) = SwerveModule_getSwervePosition (m_rearRight (train s6)) s6;
          s8 = PutNumber ''RR Swrv Pos'' rr s7
      in s8)"

text \<open>
  Modelled from the spec: \<^verbatim>\<open>driveController\<close> is declared in \<^verbatim>\<open>SwerveTrain.h\<close> and
  defined in a file that is not part of the sources. If the deadzone check reports
  the controller centred it issues a stop command, drive speed \<open>0\<close> and no azimuth
  change, to the train; otherwise it broadcasts one module command, a drive speed
  and a swerve target, identically to the four modules in the order front right,
  front left, rear left, rear right. The pipeline that computes the command from the
  axis input (direction extraction, unit conversion) is not in the sources either:
  it is the parameter \<open>moduleCommand\<close>, a function of the axis input.
\<close>

definition SwerveModule_command :: "handle \<Rightarrow> real \<Rightarrow> real \<Rightarrow> robot \<Rightarrow> robot" where
  "SwerveModule_command h drive target s =
     s\<lparr>modules := (modules s)(h := (modules s h)\<lparr>driveChannel := drive, swerveSetpoint := Some target\<rparr>),
       calls := calls s @ [Call_command h drive target]\<rparr>"

text \<open>
  Modelled from the spec: \<^verbatim>\<open>driveController\<close> itself, as described above: the stop
  command is \<^verbatim>\<open>setDriveSpeed(0)\<close>, the broadcast is one command per module.
\<close>

definition driveController ::
  "real \<Rightarrow> (Joystick \<Rightarrow> real \<times> real) \<Rightarrow> Joystick \<Rightarrow> robot \<Rightarrow> robot" where
  "driveController R_controllerDeadzone moduleCommand controller s0 =
     (if getControllerInDeadzone R_controllerDeadzone controller then setDriveSpeed 0 s0
      else
        (let (drive, target) = moduleCommand controller;
             s1 = SwerveModule_command (m_frontRight (train s0)) drive target s0;
             s2 = SwerveModule_command (m_frontLeft (train s1)) drive target s1;
             s3 = SwerveModule_command (m_rearLeft (train s2)) drive target s2;
             s4 = SwerveModule_command (m_rearRight (train s3)) drive target s3
         in s4))"

text \<open>
  One call of a public method of the dispatcher, with its arguments. The deadzone,
  the target computation of the modules and the command pipeline are the configuration
  the calls run under.
\<close>

datatype operation =
    Op_setDriveSpeed real
  | Op_setSwerveSpeed real
  | Op_setSwerveZeroPosition bool
  | Op_assumeZeroPosition
  | Op_assumeNearestZeroPosition
  | Op_publishSwervePositions
  | Op_driveController Joystick

fun perform ::
  "real \<Rightarrow> (real \<Rightarrow> real \<Rightarrow> real) \<Rightarrow> (Joystick \<Rightarrow> real \<times> real) \<Rightarrow> operation \<Rightarrow> robot \<Rightarrow> robot"
  where
  "perform zone nearestZero pipeline (Op_setDriveSpeed v) s = setDriveSpeed v s"
| "perform zone nearestZero pipeline (Op_setSwerveSpeed v) s = setSwerveSpeed v s"
| "perform zone nearestZero pipeline (Op_setSwerveZeroPosition verbose) s = setSwerveZeroPosition verbose s"
| "perform zone nearestZero pipeline Op_assumeZeroPosition s = assumeZeroPosition s"
| "perform zone nearestZero pipeline Op_assumeNearestZeroPosition s = assumeNearestZeroPosition nearestZero s"
| "perform zone nearestZero pipeline Op_publishSwervePositions s = publishSwervePositions s"
| "perform zone nearestZero pipeline (Op_driveController controller) s =
     driveController zone pipeline controller s"

section \<open>The limelight\<close>

text \<open>
  The limelight reads the network table \<^verbatim>\<open>limelight\<close>, which the camera fills with
  numbers. The table is a map from keys to numbers; \<^verbatim>\<open>GetNumber\<close> returns the number
  stored under the key, or the default it is given when there is none, and hands the
  table back as it found it.
\<close>

type_synonym NetworkTable = "string \<rightharpoonup> real"

definition GetNumber :: "string \<Rightarrow> real \<Rightarrow> NetworkTable \<Rightarrow> real \<times> NetworkTable" where
  "GetNumber key defaultValue t =
     (case t key of Some v \<Rightarrow> (v, t) | None \<Rightarrow> (defaultValue, t))"

definition horizontalOffset :: "NetworkTable \<Rightarrow> real \<times> NetworkTable" where
  "horizontalOffset t = GetNumber ''tx'' 0 t"

definition verticalOffset :: "NetworkTable \<Rightarrow> real \<times> NetworkTable" where
  "verticalOffset t = GetNumber ''ty'' 0 t"

definition targetArea :: "NetworkTable \<Rightarrow> real \<times> NetworkTable" where
  "targetArea t = GetNumber ''ta'' 0 t"

text \<open>\<^verbatim>\<open>target\<close> returns the number as a \<^verbatim>\<open>bool\<close>: true when it is not zero.\<close>

definition target :: "NetworkTable \<Rightarrow> bool \<times> NetworkTable" where
  "target t = (let (v, t') = GetNumber ''tv'' 0 t in (v \<noteq> 0, t'))"

section \<open>Deadzone and magnitude: the properties\<close>

text \<open>
  C2: for every reading \<open>(x, y, z)\<close> and every deadzone threshold, the deadzone check
  is true exactly when each of \<open>|x|\<close>, \<open>|y|\<close> and \<open>|z|\<close> is strictly below the
  threshold. The check is a function of the reading and the threshold alone: it
  writes nothing.
\<close>

theorem getControllerInDeadzone_iff:
  "getControllerInDeadzone zone \<lparr>GetX = x, GetY = y, GetZ = z\<rparr> =
     (\<bar>x\<bar> < zone \<and> \<bar>y\<bar> < zone \<and> \<bar>z\<bar> < zone)"
  by (simp add: getControllerInDeadzone_def)

subsection \<open>Rounding to double\<close>

lemma round_half_even_of_int: "round_half_even (of_int n) = n"
  by (simp add: round_half_even_def)

lemma round_half_even_near: "\<bar>of_int (round_half_even r) - r\<bar> \<le> 1 / 2"
proof -
  have "of_int \<lfloor>r\<rfloor> \<le> r" "r < of_int \<lfloor>r\<rfloor> + 1" by linarith+
  then show ?thesis
    by (simp add: round_half_even_def Let_def)
qed

lemma round_half_even_nonnegative: "0 \<le> r \<Longrightarrow> 0 \<le> round_half_even r"
proof -
  assume "0 \<le> r"
  then have "0 \<le> \<lfloor>r\<rfloor>" by simp
  then show ?thesis by (simp add: round_half_even_def Let_def)
qed

lemma double_ulp_positive: "0 < double_ulp r"
  by (simp add: double_ulp_def)

lemma double_of_real_nonnegative: "0 \<le> r \<Longrightarrow> double_nonnegative (double_of_real r)"
proof -
  assume r: "0 \<le> r"
  have "0 \<le> r / double_ulp r" using r double_ulp_positive [of r] by simp
  then have "0 \<le> round_half_even (r / double_ulp r)" by (rule round_half_even_nonnegative)
  then have "0 \<le> of_int (round_half_even (r / double_ulp r)) * double_ulp r"
    using double_ulp_positive [of r] by simp
  then show ?thesis by (simp add: double_of_real_def Let_def)
qed

lemma double_of_real_near:
  assumes "double_of_real r = Finite q"
  shows "\<bar>q - r\<bar> \<le> double_ulp r / 2"
proof (cases "r = 0")
  case True
  then show ?thesis using assms double_ulp_positive [of r] by (simp add: double_of_real_def)
next
  case False
  define u where "u = double_ulp r"
  define n where "n = round_half_even (r / u)"
  have u: "0 < u" unfolding u_def by (rule double_ulp_positive)
  have q: "q = of_int n * u"
    using assms False unfolding n_def u_def
    by (simp add: double_of_real_def Let_def split: if_splits)
  have "\<bar>of_int n - r / u\<bar> \<le> 1 / 2" unfolding n_def by (rule round_half_even_near)
  then have "\<bar>of_int n - r / u\<bar> * u \<le> 1 / 2 * u"
    using u by (simp only: mult_right_mono less_imp_le)
  moreover have "(of_int n - r / u) * u = of_int n * u - r"
    using u by (simp add: field_simps)
  then have "\<bar>of_int n - r / u\<bar> * u = \<bar>of_int n * u - r\<bar>"
    using u by (metis abs_mult abs_of_pos)
  ultimately show ?thesis unfolding q u_def [symmetric] by simp
qed

lemma floor_log2_bound:
  assumes "0 < x" and "x < 2 powi k"
  shows "\<lfloor>log 2 x\<rfloor> < k"
proof -
  have "x < 2 powr (of_int k)" using assms(2) by (simp add: powr_real_of_int')
  then have "log 2 x < of_int k" using assms(1) by (simp add: log_less_iff)
  then show ?thesis by (simp add: floor_less_iff)
qed

lemma is_double_multiple_of_ulp:
  assumes "is_double r" and "r \<noteq> 0"
  shows "\<exists>n :: int. r / double_ulp r = of_int n"
proof -
  from assms(1) obtain m e :: int
    where m: "\<bar>m\<bar> < 2 ^ 53" and e: "- 1074 \<le> e" and r: "r = of_int m * 2 powi e"
    unfolding is_double_def by blast
  have "\<bar>(of_int m :: real)\<bar> < 2 ^ 53" using m by (metis of_int_abs of_int_less_iff of_int_numeral of_int_power)
  then have "\<bar>r\<bar> < 2 ^ 53 * 2 powi e"
    unfolding r by (simp add: abs_mult)
  also have "(2 :: real) ^ 53 * 2 powi e = 2 powi (53 + e)"
    by (simp add: power_int_add)
  finally have "\<bar>r\<bar> < 2 powi (53 + e)" .
  then have "\<lfloor>log 2 \<bar>r\<bar>\<rfloor> < 53 + e"
    using assms(2) by (intro floor_log2_bound) simp_all
  then have le: "max \<lfloor>log 2 \<bar>r\<bar>\<rfloor> (- 1022) - 52 \<le> e" using e by simp
  define k where "k = max \<lfloor>log 2 \<bar>r\<bar>\<rfloor> (- 1022) - 52"
  define d where "d = nat (e - k)"
  have "e = k + int d" unfolding d_def k_def using le by simp
  then have p: "(2 :: real) powi e = 2 powi k * 2 ^ d"
    by (metis power_int_add power_int_of_nat zero_neq_numeral)
  have "(2 :: real) powi k \<noteq> 0" by simp
  then have "of_int m * (2 powi k * 2 ^ d) / 2 powi k = (of_int m * 2 ^ d :: real)"
    by simp
  moreover have "double_ulp r = 2 powi k"
    unfolding double_ulp_def k_def by (rule refl)
  moreover have "r = of_int m * (2 powi k * 2 ^ d)"
    using r p by simp
  ultimately have "r / double_ulp r = of_int m * 2 ^ d"
    by metis
  also have "\<dots> = of_int (m * 2 ^ d)" by simp
  finally show ?thesis by blast
qed

lemma is_double_finite:
  assumes "is_double r"
  shows "\<bar>r\<bar> < double_huge"
proof -
  from assms obtain m e :: int
    where m: "\<bar>m\<bar> < 2 ^ 53" and e: "e \<le> 971" and r: "r = of_int m * 2 powi e"
    unfolding is_double_def by blast
  have m': "\<bar>(of_int m :: real)\<bar> < 2 ^ 53" using m by (metis of_int_abs of_int_less_iff of_int_numeral of_int_power)
  have "(2 :: real) powi e \<le> 2 powi 971" using e by (intro power_int_increasing) simp_all
  then have "\<bar>r\<bar> \<le> \<bar>of_int m\<bar> * 2 powi 971" unfolding r by (simp add: abs_mult mult_left_mono)
  also have "\<dots> < 2 ^ 53 * 2 powi 971" using m' by (simp add: mult_strict_right_mono)
  also have "\<dots> = double_huge" by (simp add: double_huge_def)
  finally show ?thesis .
qed

lemma double_of_real_exact:
  assumes "is_double r"
  shows "double_of_real r = Finite r"
proof (cases "r = 0")
  case True
  then show ?thesis by (simp add: double_of_real_def)
next
  case False
  obtain n :: int where n: "r / double_ulp r = of_int n"
    using is_double_multiple_of_ulp [OF assms False] by blast
  have "of_int (round_half_even (r / double_ulp r)) * double_ulp r = r"
    unfolding n round_half_even_of_int
    using n double_ulp_positive [of r] by (metis nonzero_divide_eq_eq less_numeral_extra(3))
  moreover have "\<bar>r\<bar> < double_huge" using assms by (rule is_double_finite)
  then have "\<not> double_huge \<le> r" "\<not> r \<le> - double_huge" by linarith+
  ultimately show ?thesis using False by (simp add: double_of_real_def Let_def)
qed

text \<open>The doubles nearest to 0.1 and 0.2 add up to a number between two doubles.\<close>

lemma tenth_plus_fifth_exponent: "\<lfloor>log 2 \<bar>10808639105689191 / 2 ^ 55 :: real\<bar>\<rfloor> = - 2"
proof -
  have "(2 :: real) powr real_of_int (- 2) = 1 / 4" "(2 :: real) powr real_of_int (- 2 + 1) = 1 / 2"
    by (simp_all add: powr_minus inverse_eq_divide)
  then have "(2 :: real) powr real_of_int (- 2) \<le> 10808639105689191 / 2 ^ 55
        \<and> (10808639105689191 / 2 ^ 55 :: real) < 2 powr real_of_int (- 2 + 1)"
    by (simp only:) simp
  then have "\<lfloor>log 2 (10808639105689191 / 2 ^ 55 :: real)\<rfloor> = - 2"
    by (subst floor_log_eq_powr_iff) simp_all
  then show ?thesis by simp
qed

lemma getControllerAbsoluteMagnitude_tenth_fifth:
  "getControllerAbsoluteMagnitude
     \<lparr>GetX = 3602879701896397 / 2 ^ 55, GetY = 3602879701896397 / 2 ^ 54, GetZ = 0\<rparr>
   = Finite (10808639105689192 / 2 ^ 55)"
proof -
  have s: "\<bar>3602879701896397 / 2 ^ 55 :: real\<bar> + \<bar>3602879701896397 / 2 ^ 54\<bar> = 10808639105689191 / 2 ^ 55"
    by simp
  have u: "double_ulp (10808639105689191 / 2 ^ 55) = 1 / 2 ^ 54"
    unfolding double_ulp_def tenth_plus_fifth_exponent by simp
  have n: "round_half_even (10808639105689191 / 2 ^ 55 / (1 / 2 ^ 54)) = 5404319552844596"
    by (simp add: round_half_even_def Let_def)
  show ?thesis
    unfolding getControllerAbsoluteMagnitude_def Let_def double_add_def
    apply (simp only: Joystick.simps s)
    apply (simp only: double_of_real_def Let_def u n)
    apply (simp add: double_huge_def)
    done
qed

text \<open>
  C3: for every reading \<open>(x, y)\<close> the magnitude is the double sum of \<open>|x|\<close> and \<open>|y|\<close>,
  that is the taxicab length \<open>|x| + |y|\<close> rounded once to double: it is within half a
  spacing of \<open>|x| + |y|\<close>, it is \<open>|x| + |y|\<close> itself whenever that number is a double,
  it is never negative, and it is \<open>0\<close> at the centre. It is not \<open>|x| + |y|\<close> for every
  reading: at the doubles nearest to 0.1 and 0.2 the sum lies between two doubles
  and the magnitude is the upper one.
\<close>

theorem getControllerAbsoluteMagnitude_rounded_taxicab:
  "getControllerAbsoluteMagnitude \<lparr>GetX = x, GetY = y, GetZ = z\<rparr> = double_of_real (\<bar>x\<bar> + \<bar>y\<bar>)
   \<and> (getControllerAbsoluteMagnitude \<lparr>GetX = x, GetY = y, GetZ = z\<rparr> = Finite q \<longrightarrow>
        \<bar>q - (\<bar>x\<bar> + \<bar>y\<bar>)\<bar> \<le> double_ulp (\<bar>x\<bar> + \<bar>y\<bar>) / 2)
   \<and> (is_double (\<bar>x\<bar> + \<bar>y\<bar>) \<longrightarrow>
        getControllerAbsoluteMagnitude \<lparr>GetX = x, GetY = y, GetZ = z\<rparr> = Finite (\<bar>x\<bar> + \<bar>y\<bar>))
   \<and> double_nonnegative (getControllerAbsoluteMagnitude \<lparr>GetX = x, GetY = y, GetZ = z\<rparr>)
   \<and> getControllerAbsoluteMagnitude \<lparr>GetX = 0, GetY = 0, GetZ = z\<rparr> = Finite 0"
proof -
  have m: "getControllerAbsoluteMagnitude \<lparr>GetX = x, GetY = y, GetZ = z\<rparr> = double_of_real (\<bar>x\<bar> + \<bar>y\<bar>)"
    by (simp add: getControllerAbsoluteMagnitude_def double_add_def)
  have near: "getControllerAbsoluteMagnitude \<lparr>GetX = x, GetY = y, GetZ = z\<rparr> = Finite q \<longrightarrow>
        \<bar>q - (\<bar>x\<bar> + \<bar>y\<bar>)\<bar> \<le> double_ulp (\<bar>x\<bar> + \<bar>y\<bar>) / 2"
    unfolding m using double_of_real_near by blast
  have exact: "is_double (\<bar>x\<bar> + \<bar>y\<bar>) \<longrightarrow>
        getControllerAbsoluteMagnitude \<lparr>GetX = x, GetY = y, GetZ = z\<rparr> = Finite (\<bar>x\<bar> + \<bar>y\<bar>)"
    unfolding m using double_of_real_exact by blast
  have "0 \<le> \<bar>x\<bar> + \<bar>y\<bar>" by simp
  then have nonneg: "double_nonnegative (getControllerAbsoluteMagnitude \<lparr>GetX = x, GetY = y, GetZ = z\<rparr>)"
    unfolding m by (rule double_of_real_nonnegative)
  have zero: "getControllerAbsoluteMagnitude \<lparr>GetX = 0, GetY = 0, GetZ = z\<rparr> = Finite 0"
    by (simp add: getControllerAbsoluteMagnitude_def double_add_def double_of_real_def)
  from m near exact nonneg zero show ?thesis by (intro conjI)
qed

theorem getControllerAbsoluteMagnitude_rounded_taxicab_witness:
  "is_double (\<bar>1 / 2\<bar> + \<bar>1 / 4\<bar>)
   \<and> getControllerAbsoluteMagnitude \<lparr>GetX = 1 / 2, GetY = 1 / 4, GetZ = 0\<rparr> = Finite (\<bar>1 / 2\<bar> + \<bar>1 / 4\<bar>)
   \<and> \<bar>\<bar>1 / 2\<bar> + \<bar>1 / 4\<bar> - (\<bar>1 / 2\<bar> + \<bar>1 / 4 :: real\<bar>)\<bar> \<le> double_ulp (\<bar>1 / 2\<bar> + \<bar>1 / 4\<bar>) / 2"
proof -
  have "\<bar>3 :: int\<bar> < 2 ^ 53 \<and> (- 1074 :: int) \<le> - 2 \<and> (- 2 :: int) \<le> 971
        \<and> \<bar>1 / 2\<bar> + \<bar>1 / 4 :: real\<bar> = of_int 3 * 2 powi (- 2)"
    by simp
  then have d: "is_double (\<bar>1 / 2\<bar> + \<bar>1 / 4\<bar>)"
    unfolding is_double_def by blast
  note t = getControllerAbsoluteMagnitude_rounded_taxicab
             [of "1 / 2" "1 / 4" 0 "\<bar>1 / 2\<bar> + \<bar>1 / 4\<bar>"]
  from t d have e: "getControllerAbsoluteMagnitude \<lparr>GetX = 1 / 2, GetY = 1 / 4, GetZ = 0\<rparr>
                      = Finite (\<bar>1 / 2\<bar> + \<bar>1 / 4\<bar>)"
    by blast
  from t e have "\<bar>\<bar>1 / 2\<bar> + \<bar>1 / 4\<bar> - (\<bar>1 / 2\<bar> + \<bar>1 / 4 :: real\<bar>)\<bar> \<le> double_ulp (\<bar>1 / 2\<bar> + \<bar>1 / 4\<bar>) / 2"
    by blast
  with d e show ?thesis by (intro conjI)
qed

theorem getControllerAbsoluteMagnitude_taxicab_counterexample:
  "getControllerAbsoluteMagnitude
     \<lparr>GetX = 3602879701896397 / 2 ^ 55, GetY = 3602879701896397 / 2 ^ 54, GetZ = 0\<rparr>
   = Finite (10808639105689192 / 2 ^ 55)
   \<and> getControllerAbsoluteMagnitude
     \<lparr>GetX = 3602879701896397 / 2 ^ 55, GetY = 3602879701896397 / 2 ^ 54, GetZ = 0\<rparr>
   \<noteq> Finite (\<bar>3602879701896397 / 2 ^ 55\<bar> + \<bar>3602879701896397 / 2 ^ 54\<bar>)"
  unfolding getControllerAbsoluteMagnitude_tenth_fifth by simp

text \<open>
  C7: with a threshold that is zero or negative the deadzone check is false for
  every reading, by the comparison alone.
\<close>

theorem getControllerInDeadzone_nonpositive_zone:
  assumes "zone \<le> 0"
  shows "\<not> getControllerInDeadzone zone controller"
proof -
  have "0 \<le> \<bar>GetX controller\<bar>" by simp
  with assms have "\<not> \<bar>GetX controller\<bar> < zone" by linarith
  then show ?thesis by (simp add: getControllerInDeadzone_def)
qed

theorem getControllerInDeadzone_nonpositive_zone_witness:
  "(0::real) \<le> 0 \<and> \<not> getControllerInDeadzone 0 \<lparr>GetX = 0, GetY = 0, GetZ = 0\<rparr>"
  using getControllerInDeadzone_nonpositive_zone [of 0 "\<lparr>GetX = 0, GetY = 0, GetZ = 0\<rparr>"]
  by simp

section \<open>Effects of the calls on a module\<close>

text \<open>
  What each call does to the dispatcher object, to the list of calls and to each field
  of each module. The bulk operations are chains of these.
\<close>

lemma issued_append: "calls s' = calls s @ cs \<Longrightarrow> issued s s' = cs"
  by (simp add: issued_def)

lemma SwerveModule_setDriveSpeed_effect:
  "train (SwerveModule_setDriveSpeed h v s) = train s"
  "calls (SwerveModule_setDriveSpeed h v s) = calls s @ [Call_setDriveSpeed h v]"
  "driveChannel (modules (SwerveModule_setDriveSpeed h v s) h') =
     (if h' = h then v else driveChannel (modules s h'))"
  "swerveChannel (modules (SwerveModule_setDriveSpeed h v s) h') = swerveChannel (modules s h')"
  "swervePosition (modules (SwerveModule_setDriveSpeed h v s) h') = swervePosition (modules s h')"
  "swerveZeroPosition (modules (SwerveModule_setDriveSpeed h v s) h') = swerveZeroPosition (modules s h')"
  "swerveSetpoint (modules (SwerveModule_setDriveSpeed h v s) h') = swerveSetpoint (modules s h')"
  by (simp_all add: SwerveModule_setDriveSpeed_def)

lemma SwerveModule_setSwerveSpeed_effect:
  "train (SwerveModule_setSwerveSpeed h v s) = train s"
  "calls (SwerveModule_setSwerveSpeed h v s) = calls s @ [Call_setSwerveSpeed h v]"
  "driveChannel (modules (SwerveModule_setSwerveSpeed h v s) h') = driveChannel (modules s h')"
  "swerveChannel (modules (SwerveModule_setSwerveSpeed h v s) h') =
     (if h' = h then v else swerveChannel (modules s h'))"
  "swervePosition (modules (SwerveModule_setSwerveSpeed h v s) h') = swervePosition (modules s h')"
  "swerveZeroPosition (modules (SwerveModule_setSwerveSpeed h v s) h') = swerveZeroPosition (modules s h')"
  "swerveSetpoint (modules (SwerveModule_setSwerveSpeed h v s) h') = swerveSetpoint (modules s h')"
  by (simp_all add: SwerveModule_setSwerveSpeed_def)

lemma SwerveModule_setZeroPosition_effect:
  "train (SwerveModule_setZeroPosition h s) = train s"
  "calls (SwerveModule_setZeroPosition h s) = calls s @ [Call_setZeroPosition h]"
  "driveChannel (modules (SwerveModule_setZeroPosition h s) h') = driveChannel (modules s h')"
  "swerveChannel (modules (SwerveModule_setZeroPosition h s) h') = swerveChannel (modules s h')"
  "swervePosition (modules (SwerveModule_setZeroPosition h s) h') = swervePosition (modules s h')"
  "swerveZeroPosition (modules (SwerveModule_setZeroPosition h s) h') =
     (if h' = h then swervePosition (modules s h') else swerveZeroPosition (modules s h'))"
  "swerveSetpoint (modules (SwerveModule_setZeroPosition h s) h') = swerveSetpoint (modules s h')"
  by (simp_all add: SwerveModule_setZeroPosition_def)

lemma SwerveModule_getSwerveZeroPosition_effect:
  "fst (SwerveModule_getSwerveZeroPosition h s) = swerveZeroPosition (modules s h)"
  "train (snd (SwerveModule_getSwerveZeroPosition h s)) = train s"
  "calls (snd (SwerveModule_getSwerveZeroPosition h s)) = calls s @ [Call_getSwerveZeroPosition h]"
  "modules (snd (SwerveModule_getSwerveZeroPosition h s)) = modules s"
  by (simp_all add: SwerveModule_getSwerveZeroPosition_def)

lemma SwerveModule_getSwervePosition_effect:
  "fst (SwerveModule_getSwervePosition h s) = swervePosition (modules s h)"
  "train (snd (SwerveModule_getSwervePosition h s)) = train s"
  "calls (snd (SwerveModule_getSwervePosition h s)) = calls s @ [Call_getSwervePosition h]"
  "modules (snd (SwerveModule_getSwervePosition h s)) = modules s"
  by (simp_all add: SwerveModule_getSwervePosition_def)

lemma SwerveModule_assumeSwerveZeroPosition_effect:
  "train (SwerveModule_assumeSwerveZeroPosition h s) = train s"
  "calls (SwerveModule_assumeSwerveZeroPosition h s) = calls s @ [Call_assumeSwerveZeroPosition h]"
  "driveChannel (modules (SwerveModule_assumeSwerveZeroPosition h s) h') = driveChannel (modules s h')"
  "swerveChannel (modules (SwerveModule_assumeSwerveZeroPosition h s) h') = swerveChannel (modules s h')"
  "swervePosition (modules (SwerveModule_assumeSwerveZeroPosition h s) h') = swervePosition (modules s h')"
  "swerveZeroPosition (modules (SwerveModule_assumeSwerveZeroPosition h s) h') = swerveZeroPosition (modules s h')"
  "swerveSetpoint (modules (SwerveModule_assumeSwerveZeroPosition h s) h') =
     (if h' = h then Some (swerveZeroPosition (modules s h')) else swerveSetpoint (modules s h'))"
  by (simp_all add: SwerveModule_assumeSwerveZeroPosition_def)

lemma SwerveModule_assumeSwerveNearestZeroPosition_effect:
  "train (SwerveModule_assumeSwerveNearestZeroPosition p h s) = train s"
  "calls (SwerveModule_assumeSwerveNearestZeroPosition p h s) =
     calls s @ [Call_assumeSwerveNearestZeroPosition h]"
  "driveChannel (modules (SwerveModule_assumeSwerveNearestZeroPosition p h s) h') = driveChannel (modules s h')"
  "swerveChannel (modules (SwerveModule_assumeSwerveNearestZeroPosition p h s) h') = swerveChannel (modules s h')"
  "swervePosition (modules (SwerveModule_assumeSwerveNearestZeroPosition p h s) h') = swervePosition (modules s h')"
  "swerveZeroPosition (modules (SwerveModule_assumeSwerveNearestZeroPosition p h s) h') =
     swerveZeroPosition (modules s h')"
  "swerveSetpoint (modules (SwerveModule_assumeSwerveNearestZeroPosition p h s) h') =
     (if h' = h
      then Some (p (swerveZeroPosition (modules s h')) (swervePosition (modules s h')))
      else swerveSetpoint (modules s h'))"
  by (simp_all add: SwerveModule_assumeSwerveNearestZeroPosition_def)

lemma SwerveModule_command_effect:
  "train (SwerveModule_command h d t s) = train s"
  "calls (SwerveModule_command h d t s) = calls s @ [Call_command h d t]"
  by (simp_all add: SwerveModule_command_def)

lemma PutNumber_effect:
  "train (PutNumber k v s) = train s"
  "calls (PutNumber k v s) = calls s @ [Call_PutNumber k v]"
  "modules (PutNumber k v s) = modules s"
  by (simp_all add: PutNumber_def)

lemmas module_effects =
  SwerveModule_setDriveSpeed_effect SwerveModule_setSwerveSpeed_effect
  SwerveModule_setZeroPosition_effect SwerveModule_getSwerveZeroPosition_effect
  SwerveModule_getSwervePosition_effect SwerveModule_assumeSwerveZeroPosition_effect
  SwerveModule_assumeSwerveNearestZeroPosition_effect SwerveModule_command_effect
  PutNumber_effect

section \<open>Effects of the bulk operations\<close>

lemma setDriveSpeed_train: "train (setDriveSpeed v s) = train s"
  by (simp add: setDriveSpeed_def Let_def module_effects)

lemma setDriveSpeed_calls:
  "calls (setDriveSpeed v s) = calls s @
     [Call_setDriveSpeed (m_frontRight (train s)) v, Call_setDriveSpeed (m_frontLeft (train s)) v,
      Call_setDriveSpeed (m_rearLeft (train s)) v, Call_setDriveSpeed (m_rearRight (train s)) v]"
  by (simp add: setDriveSpeed_def Let_def module_effects)

lemma setDriveSpeed_modules:
  "driveChannel (modules (setDriveSpeed v s) h) =
     (if h \<in> handles (train s) then v else driveChannel (modules s h))"
  "swerveChannel (modules (setDriveSpeed v s) h) = swerveChannel (modules s h)"
  "swervePosition (modules (setDriveSpeed v s) h) = swervePosition (modules s h)"
  "swerveZeroPosition (modules (setDriveSpeed v s) h) = swerveZeroPosition (modules s h)"
  "swerveSetpoint (modules (setDriveSpeed v s) h) = swerveSetpoint (modules s h)"
  by (simp_all add: setDriveSpeed_def Let_def module_effects handles_def)

lemma setSwerveZeroPosition_train: "train (setSwerveZeroPosition verbose s) = train s"
  by (simp add: setSwerveZeroPosition_def Let_def split_beta module_effects)

lemma setSwerveZeroPosition_calls:
  "calls (setSwerveZeroPosition verbose s) = calls s @
     [Call_setZeroPosition (m_frontRight (train s)), Call_setZeroPosition (m_frontLeft (train s)),
      Call_setZeroPosition (m_rearLeft (train s)), Call_setZeroPosition (m_rearRight (train s))] @
     (if verbose then
        [Call_getSwerveZeroPosition (m_frontRight (train s)),
         Call_PutNumber ''FR Swrv Pos0'' (swervePosition (modules s (m_frontRight (train s)))),
         Call_getSwerveZeroPosition (m_frontLeft (train s)),
         Call_PutNumber ''FL Swrv Pos0'' (swervePosition (modules s (m_frontLeft (train s)))),
         Call_getSwerveZeroPosition (m_rearLeft (train s)),
         Call_PutNumber ''RL Swrv Pos0'' (swervePosition (modules s (m_rearLeft (train s)))),
         Call_getSwerveZeroPosition (m_rearRight (train s)),
         Call_PutNumber ''RR Swrv Pos0'' (swervePosition (modules s (m_rearRight (train s))))]
      else [])"
  by (simp add: setSwerveZeroPosition_def Let_def split_beta module_effects)

lemma setSwerveZeroPosition_modules:
  "driveChannel (modules (setSwerveZeroPosition verbose s) h) = driveChannel (modules s h)"
  "swerveChannel (modules (setSwerveZeroPosition verbose s) h) = swerveChannel (modules s h)"
  "swervePosition (modules (setSwerveZeroPosition verbose s) h) = swervePosition (modules s h)"
  "swerveZeroPosition (modules (setSwerveZeroPosition verbose s) h) =
     (if h \<in> handles (train s) then swervePosition (modules s h) else swerveZeroPosition (modules s h))"
  "swerveSetpoint (modules (setSwerveZeroPosition verbose s) h) = swerveSetpoint (modules s h)"
  by (simp_all add: setSwerveZeroPosition_def Let_def split_beta module_effects handles_def)


lemma setSwerveSpeed_train: "train (setSwerveSpeed v s) = train s"
  by (simp add: setSwerveSpeed_def Let_def module_effects)

lemma setSwerveSpeed_calls:
  "calls (setSwerveSpeed v s) = calls s @
     [Call_setSwerveSpeed (m_frontRight (train s)) v, Call_setSwerveSpeed (m_frontLeft (train s)) v,
      Call_setSwerveSpeed (m_rearLeft (train s)) v, Call_setSwerveSpeed (m_rearRight (train s)) v]"
  by (simp add: setSwerveSpeed_def Let_def module_effects)

lemma setSwerveSpeed_modules:
  "driveChannel (modules (setSwerveSpeed v s) h) = driveChannel (modules s h)"
  "swerveChannel (modules (setSwerveSpeed v s) h) =
     (if h \<in> handles (train s) then v else swerveChannel (modules s h))"
  "swervePosition (modules (setSwerveSpeed v s) h) = swervePosition (modules s h)"
  "swerveZeroPosition (modules (setSwerveSpeed v s) h) = swerveZeroPosition (modules s h)"
  "swerveSetpoint (modules (setSwerveSpeed v s) h) = swerveSetpoint (modules s h)"
  by (simp_all add: setSwerveSpeed_def Let_def module_effects handles_def)

lemma assumeZeroPosition_train: "train (assumeZeroPosition s) = train s"
  by (simp add: assumeZeroPosition_def Let_def module_effects)

lemma assumeZeroPosition_calls:
  "calls (assumeZeroPosition s) = calls s @
     [Call_assumeSwerveZeroPosition (m_frontRight (train s)),
      Call_assumeSwerveZeroPosition (m_frontLeft (train s)),
      Call_assumeSwerveZeroPosition (m_rearLeft (train s)),
      Call_assumeSwerveZeroPosition (m_rearRight (train s))]"
  by (simp add: assumeZeroPosition_def Let_def module_effects)

lemma assumeNearestZeroPosition_train: "train (assumeNearestZeroPosition p s) = train s"
  by (simp add: assumeNearestZeroPosition_def Let_def module_effects)

lemma assumeNearestZeroPosition_calls:
  "calls (assumeNearestZeroPosition p s) = calls s @
     [Call_assumeSwerveNearestZeroPosition (m_frontRight (train s)),
      Call_assumeSwerveNearestZeroPosition (m_frontLeft (train s)),
      Call_assumeSwerveNearestZeroPosition (m_rearLeft (train s)),
      Call_assumeSwerveNearestZeroPosition (m_rearRight (train s))]"
  by (simp add: assumeNearestZeroPosition_def Let_def module_effects)

lemma assumeNearestZeroPosition_setpoint:
  "swerveSetpoint (modules (assumeNearestZeroPosition p s) h) =
     (if h \<in> handles (train s)
      then Some (p (swerveZeroPosition (modules s h)) (swervePosition (modules s h)))
      else swerveSetpoint (modules s h))"
  by (simp add: assumeNearestZeroPosition_def Let_def module_effects handles_def)

lemma publishSwervePositions_train: "train (publishSwervePositions s) = train s"
  by (simp add: publishSwervePositions_def Let_def split_beta module_effects)

lemma publishSwervePositions_calls:
  "calls (publishSwervePositions s) = calls s @
     [Call_getSwervePosition (m_frontRight (train s)),
      Call_PutNumber ''FR Swrv Pos'' (swervePosition (modules s (m_frontRight (train s)))),
      Call_getSwervePosition (m_frontLeft (train s)),
      Call_PutNumber ''FL Swrv Pos'' (swervePosition (modules s (m_frontLeft (train s)))),
      Call_getSwervePosition (m_rearLeft (train s)),
      Call_PutNumber ''RL Swrv Pos'' (swervePosition (modules s (m_rearLeft (train s)))),
      Call_getSwervePosition (m_rearRight (train s)),
      Call_PutNumber ''RR Swrv Pos'' (swervePosition (modules s (m_rearRight (train s))))]"
  by (simp add: publishSwervePositions_def Let_def split_beta module_effects)

lemma driveController_train: "train (driveController z f c s) = train s"
  by (simp add: driveController_def Let_def split_beta module_effects setDriveSpeed_train)

lemma driveController_calls:
  "calls (driveController z f c s) = calls s @
     (if getControllerInDeadzone z c
      then [Call_setDriveSpeed (m_frontRight (train s)) 0, Call_setDriveSpeed (m_frontLeft (train s)) 0,
            Call_setDriveSpeed (m_rearLeft (train s)) 0, Call_setDriveSpeed (m_rearRight (train s)) 0]
      else [Call_command (m_frontRight (train s)) (fst (f c)) (snd (f c)),
            Call_command (m_frontLeft (train s)) (fst (f c)) (snd (f c)),
            Call_command (m_rearLeft (train s)) (fst (f c)) (snd (f c)),
            Call_command (m_rearRight (train s)) (fst (f c)) (snd (f c))])"
  by (simp add: driveController_def Let_def split_beta module_effects setDriveSpeed_calls)

lemma perform_train: "train (perform z p f op s) = train s"
  by (cases op)
     (simp_all add: setDriveSpeed_train setSwerveSpeed_train setSwerveZeroPosition_train
        assumeZeroPosition_train assumeNearestZeroPosition_train publishSwervePositions_train
        driveController_train)

lemma perform_issued:
  assumes "train s1 = train s2" and "modules s1 = modules s2"
  shows "issued s1 (perform z p f op s1) = issued s2 (perform z p f op s2)"
proof (cases op)
  case (Op_setDriveSpeed v)
  then show ?thesis using assms by (simp add: issued_def setDriveSpeed_calls)
next
  case (Op_setSwerveSpeed v)
  then show ?thesis using assms by (simp add: issued_def setSwerveSpeed_calls)
next
  case (Op_setSwerveZeroPosition verbose)
  then show ?thesis using assms by (simp add: issued_def setSwerveZeroPosition_calls)
next
  case Op_assumeZeroPosition
  then show ?thesis using assms by (simp add: issued_def assumeZeroPosition_calls)
next
  case Op_assumeNearestZeroPosition
  then show ?thesis using assms by (simp add: issued_def assumeNearestZeroPosition_calls)
next
  case Op_publishSwervePositions
  then show ?thesis using assms by (simp add: issued_def publishSwervePositions_calls)
next
  case (Op_driveController c)
  then show ?thesis using assms by (simp add: issued_def driveController_calls)
qed

section \<open>Broadcast, calibration, order and telemetry\<close>

text \<open>
  C5: \<^verbatim>\<open>setDriveSpeed(v)\<close> makes four calls, one drive-speed write of \<open>v\<close> to each
  module in turn, after which the drive channel of each of the four modules holds
  \<open>v\<close>; every other channel of every module and the dispatcher object are as they
  were. \<^verbatim>\<open>setSwerveSpeed(v)\<close> does the same on the swerve channel. Both return
  nothing but the state.
\<close>

theorem setDriveSpeed_setSwerveSpeed_broadcast:
  "issued s (setDriveSpeed v s) =
     [Call_setDriveSpeed (m_frontRight (train s)) v, Call_setDriveSpeed (m_frontLeft (train s)) v,
      Call_setDriveSpeed (m_rearLeft (train s)) v, Call_setDriveSpeed (m_rearRight (train s)) v]
   \<and> driveChannel (modules (setDriveSpeed v s) h) =
       (if h \<in> handles (train s) then v else driveChannel (modules s h))
   \<and> swerveChannel (modules (setDriveSpeed v s) h) = swerveChannel (modules s h)
   \<and> swervePosition (modules (setDriveSpeed v s) h) = swervePosition (modules s h)
   \<and> swerveZeroPosition (modules (setDriveSpeed v s) h) = swerveZeroPosition (modules s h)
   \<and> swerveSetpoint (modules (setDriveSpeed v s) h) = swerveSetpoint (modules s h)
   \<and> train (setDriveSpeed v s) = train s
   \<and> issued s (setSwerveSpeed v s) =
     [Call_setSwerveSpeed (m_frontRight (train s)) v, Call_setSwerveSpeed (m_frontLeft (train s)) v,
      Call_setSwerveSpeed (m_rearLeft (train s)) v, Call_setSwerveSpeed (m_rearRight (train s)) v]
   \<and> swerveChannel (modules (setSwerveSpeed v s) h) =
       (if h \<in> handles (train s) then v else swerveChannel (modules s h))
   \<and> driveChannel (modules (setSwerveSpeed v s) h) = driveChannel (modules s h)
   \<and> swervePosition (modules (setSwerveSpeed v s) h) = swervePosition (modules s h)
   \<and> swerveZeroPosition (modules (setSwerveSpeed v s) h) = swerveZeroPosition (modules s h)
   \<and> swerveSetpoint (modules (setSwerveSpeed v s) h) = swerveSetpoint (modules s h)
   \<and> train (setSwerveSpeed v s) = train s"
  by (simp only: issued_append [OF setDriveSpeed_calls] issued_append [OF setSwerveSpeed_calls]
        setDriveSpeed_modules setSwerveSpeed_modules setDriveSpeed_train setSwerveSpeed_train
        simp_thms)

text \<open>
  C6: \<^verbatim>\<open>setSwerveZeroPosition(verbose)\<close> calls the zero capture of each of the four
  modules, whatever \<open>verbose\<close> is, so that each of them holds its raw position as its
  zero reference; the telemetry writes it makes are the four captured zero values
  when \<open>verbose\<close> is true and none when it is false; and it makes no motion command:
  no speed write and no position command is among its calls, and the channels and
  the commanded position of every module are as they were.
\<close>

theorem setSwerveZeroPosition_capture:
  "filter isCapture (issued s (setSwerveZeroPosition verbose s)) =
     [Call_setZeroPosition (m_frontRight (train s)), Call_setZeroPosition (m_frontLeft (train s)),
      Call_setZeroPosition (m_rearLeft (train s)), Call_setZeroPosition (m_rearRight (train s))]
   \<and> swerveZeroPosition (modules (setSwerveZeroPosition verbose s) h) =
       (if h \<in> handles (train s) then swervePosition (modules s h)
        else swerveZeroPosition (modules s h))
   \<and> published (issued s (setSwerveZeroPosition verbose s)) =
       (if verbose then
          [(''FR Swrv Pos0'',
            swerveZeroPosition (modules (setSwerveZeroPosition verbose s) (m_frontRight (train s)))),
           (''FL Swrv Pos0'',
            swerveZeroPosition (modules (setSwerveZeroPosition verbose s) (m_frontLeft (train s)))),
           (''RL Swrv Pos0'',
            swerveZeroPosition (modules (setSwerveZeroPosition verbose s) (m_rearLeft (train s)))),
           (''RR Swrv Pos0'',
            swerveZeroPosition (modules (setSwerveZeroPosition verbose s) (m_rearRight (train s))))]
        else [])
   \<and> filter isMotion (issued s (setSwerveZeroPosition verbose s)) = []
   \<and> driveChannel (modules (setSwerveZeroPosition verbose s) h) = driveChannel (modules s h)
   \<and> swerveChannel (modules (setSwerveZeroPosition verbose s) h) = swerveChannel (modules s h)
   \<and> swerveSetpoint (modules (setSwerveZeroPosition verbose s) h) = swerveSetpoint (modules s h)"
  by (simp add: issued_append [OF setSwerveZeroPosition_calls] setSwerveZeroPosition_modules
        handles_def)

text \<open>
  C8: each bulk operation makes its calls module by module in the order front right,
  front left, rear left, rear right. The arguments of a call on a module are the
  argument of the operation alone; the value of a telemetry write is the reading of
  the one module its key names.
\<close>

theorem bulk_operations_order:
  "issued s (setDriveSpeed v s) =
     [Call_setDriveSpeed (m_frontRight (train s)) v, Call_setDriveSpeed (m_frontLeft (train s)) v,
      Call_setDriveSpeed (m_rearLeft (train s)) v, Call_setDriveSpeed (m_rearRight (train s)) v]
   \<and> issued s (setSwerveSpeed v s) =
     [Call_setSwerveSpeed (m_frontRight (train s)) v, Call_setSwerveSpeed (m_frontLeft (train s)) v,
      Call_setSwerveSpeed (m_rearLeft (train s)) v, Call_setSwerveSpeed (m_rearRight (train s)) v]
   \<and> issued s (setSwerveZeroPosition verbose s) =
     [Call_setZeroPosition (m_frontRight (train s)), Call_setZeroPosition (m_frontLeft (train s)),
      Call_setZeroPosition (m_rearLeft (train s)), Call_setZeroPosition (m_rearRight (train s))] @
     (if verbose then
        [Call_getSwerveZeroPosition (m_frontRight (train s)),
         Call_PutNumber ''FR Swrv Pos0'' (swervePosition (modules s (m_frontRight (train s)))),
         Call_getSwerveZeroPosition (m_frontLeft (train s)),
         Call_PutNumber ''FL Swrv Pos0'' (swervePosition (modules s (m_frontLeft (train s)))),
         Call_getSwerveZeroPosition (m_rearLeft (train s)),
         Call_PutNumber ''RL Swrv Pos0'' (swervePosition (modules s (m_rearLeft (train s)))),
         Call_getSwerveZeroPosition (m_rearRight (train s)),
         Call_PutNumber ''RR Swrv Pos0'' (swervePosition (modules s (m_rearRight (train s))))]
      else [])
   \<and> issued s (assumeZeroPosition s) =
     [Call_assumeSwerveZeroPosition (m_frontRight (train s)),
      Call_assumeSwerveZeroPosition (m_frontLeft (train s)),
      Call_assumeSwerveZeroPosition (m_rearLeft (train s)),
      Call_assumeSwerveZeroPosition (m_rearRight (train s))]
   \<and> issued s (assumeNearestZeroPosition nearestZero s) =
     [Call_assumeSwerveNearestZeroPosition (m_frontRight (train s)),
      Call_assumeSwerveNearestZeroPosition (m_frontLeft (train s)),
      Call_assumeSwerveNearestZeroPosition (m_rearLeft (train s)),
      Call_assumeSwerveNearestZeroPosition (m_rearRight (train s))]
   \<and> issued s (publishSwervePositions s) =
     [Call_getSwervePosition (m_frontRight (train s)),
      Call_PutNumber ''FR Swrv Pos'' (swervePosition (modules s (m_frontRight (train s)))),
      Call_getSwervePosition (m_frontLeft (train s)),
      Call_PutNumber ''FL Swrv Pos'' (swervePosition (modules s (m_frontLeft (train s)))),
      Call_getSwervePosition (m_rearLeft (train s)),
      Call_PutNumber ''RL Swrv Pos'' (swervePosition (modules s (m_rearLeft (train s)))),
      Call_getSwervePosition (m_rearRight (train s)),
      Call_PutNumber ''RR Swrv Pos'' (swervePosition (modules s (m_rearRight (train s))))]"
  by (simp only: issued_append [OF setDriveSpeed_calls] issued_append [OF setSwerveSpeed_calls]
        issued_append [OF setSwerveZeroPosition_calls] issued_append [OF assumeZeroPosition_calls]
        issued_append [OF assumeNearestZeroPosition_calls]
        issued_append [OF publishSwervePositions_calls] simp_thms)

text \<open>
  C9: each accessor of the limelight returns the number stored under its key, and
  \<open>0\<close> when none is stored; \<^verbatim>\<open>target\<close> is false exactly when the number under
  \<^verbatim>\<open>tv\<close> is \<open>0\<close> or there is none; every accessor hands the table back unchanged.
\<close>

theorem limelight_accessors:
  "horizontalOffset t = ((case t ''tx'' of Some v \<Rightarrow> v | None \<Rightarrow> 0), t)
   \<and> verticalOffset t = ((case t ''ty'' of Some v \<Rightarrow> v | None \<Rightarrow> 0), t)
   \<and> targetArea t = ((case t ''ta'' of Some v \<Rightarrow> v | None \<Rightarrow> 0), t)
   \<and> (fst (target t) = False) = (t ''tv'' = Some 0 \<or> t ''tv'' = None)
   \<and> snd (target t) = t"
  by (simp add: horizontalOffset_def verticalOffset_def targetArea_def target_def GetNumber_def
        split: option.split)

text \<open>
  C10: the dispatcher object consists of the four module handles, which the
  constructor assigns; every public operation leaves the object as it found it; and
  the calls an operation makes are determined by its arguments, the handles and the
  states of the modules: from two states that agree on these, the same operation
  makes the same calls.
\<close>

theorem dispatcher_stateless:
  "train (SwerveTrain_new fr fl rl rr s) =
     \<lparr>m_frontRight = fr, m_frontLeft = fl, m_rearLeft = rl, m_rearRight = rr\<rparr>
   \<and> (t :: SwerveTrain) =
     \<lparr>m_frontRight = m_frontRight t, m_frontLeft = m_frontLeft t,
      m_rearLeft = m_rearLeft t, m_rearRight = m_rearRight t\<rparr>
   \<and> train (perform zone nearestZero pipeline op s) = train s
   \<and> (train s1 = train s2 \<and> modules s1 = modules s2 \<longrightarrow>
        issued s1 (perform zone nearestZero pipeline op s1) = issued s2 (perform zone nearestZero pipeline op s2))"
proof -
  have "train (SwerveTrain_new fr fl rl rr s) =
     \<lparr>m_frontRight = fr, m_frontLeft = fl, m_rearLeft = rl, m_rearRight = rr\<rparr>"
    by (simp add: SwerveTrain_new_def)
  moreover have "t =
     \<lparr>m_frontRight = m_frontRight t, m_frontLeft = m_frontLeft t,
      m_rearLeft = m_rearLeft t, m_rearRight = m_rearRight t\<rparr>"
    by simp
  moreover have "train (perform zone nearestZero pipeline op s) = train s"
    by (rule perform_train)
  moreover have "train s1 = train s2 \<and> modules s1 = modules s2 \<longrightarrow>
        issued s1 (perform zone nearestZero pipeline op s1) = issued s2 (perform zone nearestZero pipeline op s2)"
    using perform_issued by blast
  ultimately show ?thesis by (intro conjI)
qed

theorem dispatcher_stateless_witness:
  "train 
     \<lparr>train = \<lparr>m_frontRight = 0, m_frontLeft = 1, m_rearLeft = 2, m_rearRight = 3\<rparr>,
       modules = (\<lambda>h. \<lparr>driveChannel = 0, swerveChannel = 0, swervePosition = 3200,
                          swerveZeroPosition = 1000, swerveSetpoint = None\<rparr>),
       calls = []\<rparr> = train 
     \<lparr>train = \<lparr>m_frontRight = 0, m_frontLeft = 1, m_rearLeft = 2, m_rearRight = 3\<rparr>,
       modules = (\<lambda>h. \<lparr>driveChannel = 0, swerveChannel = 0, swervePosition = 3200,
                          swerveZeroPosition = 1000, swerveSetpoint = None\<rparr>),
       calls = [Call_PutNumber ''FR Swrv Pos'' 3200]\<rparr>
   \<and> modules 
     \<lparr>train = \<lparr>m_frontRight = 0, m_frontLeft = 1, m_rearLeft = 2, m_rearRight = 3\<rparr>,
       modules = (\<lambda>h. \<lparr>driveChannel = 0, swerveChannel = 0, swervePosition = 3200,
                          swerveZeroPosition = 1000, swerveSetpoint = None\<rparr>),
       calls = []\<rparr> = modules 
     \<lparr>train = \<lparr>m_frontRight = 0, m_frontLeft = 1, m_rearLeft = 2, m_rearRight = 3\<rparr>,
       modules = (\<lambda>h. \<lparr>driveChannel = 0, swerveChannel = 0, swervePosition = 3200,
                          swerveZeroPosition = 1000, swerveSetpoint = None\<rparr>),
       calls = [Call_PutNumber ''FR Swrv Pos'' 3200]\<rparr>
   \<and> issued 
     \<lparr>train = \<lparr>m_frontRight = 0, m_frontLeft = 1, m_rearLeft = 2, m_rearRight = 3\<rparr>,
       modules = (\<lambda>h. \<lparr>driveChannel = 0, swerveChannel = 0, swervePosition = 3200,
                          swerveZeroPosition = 1000, swerveSetpoint = None\<rparr>),
       calls = []\<rparr> (perform (1/5) (\<lambda>zero position. zero) (\<lambda>c. (\<bar>GetY c\<bar>, GetX c)) (Op_setSwerveZeroPosition True) 
     \<lparr>train = \<lparr>m_frontRight = 0, m_frontLeft = 1, m_rearLeft = 2, m_rearRight = 3\<rparr>,
       modules = (\<lambda>h. \<lparr>driveChannel = 0, swerveChannel = 0, swervePosition = 3200,
                          swerveZeroPosition = 1000, swerveSetpoint = None\<rparr>),
       calls = []\<rparr>)
     = issued 
     \<lparr>train = \<lparr>m_frontRight = 0, m_frontLeft = 1, m_rearLeft = 2, m_rearRight = 3\<rparr>,
       modules = (\<lambda>h. \<lparr>driveChannel = 0, swerveChannel = 0, swervePosition = 3200,
                          swerveZeroPosition = 1000, swerveSetpoint = None\<rparr>),
       calls = [Call_PutNumber ''FR Swrv Pos'' 3200]\<rparr> (perform (1/5) (\<lambda>zero position. zero) (\<lambda>c. (\<bar>GetY c\<bar>, GetX c)) (Op_setSwerveZeroPosition True) 
     \<lparr>train = \<lparr>m_frontRight = 0, m_frontLeft = 1, m_rearLeft = 2, m_rearRight = 3\<rparr>,
       modules = (\<lambda>h. \<lparr>driveChannel = 0, swerveChannel = 0, swervePosition = 3200,
                          swerveZeroPosition = 1000, swerveSetpoint = None\<rparr>),
       calls = [Call_PutNumber ''FR Swrv Pos'' 3200]\<rparr>)"
proof -
  let ?s1 = "
     \<lparr>train = \<lparr>m_frontRight = 0, m_frontLeft = 1, m_rearLeft = 2, m_rearRight = 3\<rparr>,
       modules = (\<lambda>h. \<lparr>driveChannel = 0, swerveChannel = 0, swervePosition = 3200,
                          swerveZeroPosition = 1000, swerveSetpoint = None\<rparr>),
       calls = []\<rparr>"
  let ?s2 = "
     \<lparr>train = \<lparr>m_frontRight = 0, m_frontLeft = 1, m_rearLeft = 2, m_rearRight = 3\<rparr>,
       modules = (\<lambda>h. \<lparr>driveChannel = 0, swerveChannel = 0, swervePosition = 3200,
                          swerveZeroPosition = 1000, swerveSetpoint = None\<rparr>),
       calls = [Call_PutNumber ''FR Swrv Pos'' 3200]\<rparr>"
  have e: "train ?s1 = train ?s2 \<and> modules ?s1 = modules ?s2" by simp
  have "train ?s1 = train ?s2 \<and> modules ?s1 = modules ?s2 \<longrightarrow>
     issued ?s1 (perform (1/5) (\<lambda>zero position. zero) (\<lambda>c. (\<bar>GetY c\<bar>, GetX c)) (Op_setSwerveZeroPosition True) ?s1)
     = issued ?s2 (perform (1/5) (\<lambda>zero position. zero) (\<lambda>c. (\<bar>GetY c\<bar>, GetX c)) (Op_setSwerveZeroPosition True) ?s2)"
    by (rule dispatcher_stateless [THEN conjunct2, THEN conjunct2, THEN conjunct2])
  with e show ?thesis by blast
qed

end
